theory Spec2Isabelle
  imports Main "HOL-Library.Sublist"
begin

section \<open>Heimer: the application driver and its collaborators\<close>

text \<open>
  The development follows \<^verbatim>\<open>src/application.cpp\<close> (class \<open>Application\<close>: argument
  parsing and the effects run for each workflow state) and the interface declared in
  \<^verbatim>\<open>src/mediator.hpp\<close>.
\<close>

subsection \<open>Workflow vocabulary\<close>

text \<open>
  Modelled from the spec: the closed set of Actions (the enumeration
  \<open>StateMachine::Action\<close> of \<^verbatim>\<open>statemachine.hpp\<close> is missing). Every Action that
  \<^verbatim>\<open>application.cpp\<close> emits is among them.
\<close>

datatype Action =
    NewMindMap | MindMapOpened | MindMapSaved | MindMapSaveFailed
  | MindMapSavedAs | MindMapSaveAsFailed | BackgroundColorChanged | ExportedToPNG
  | NotSavedDialogAccepted | NotSavedDialogDiscarded | NotSavedDialogCanceled
  | RequestOpen | RequestSave | RequestSaveAs | RequestExport
  | RequestBackgroundColor | RequestClose | RequestNew

text \<open>
  Modelled from the spec: the closed set of States (the enumeration
  \<open>StateMachine::State\<close> of \<^verbatim>\<open>statemachine.hpp\<close> is missing). They are exactly the
  \<open>case\<close> labels of \<open>Application::runState\<close>.
\<close>

datatype State =
    Edit | InitializeNewMindMap | SaveMindMap | ShowOpenDialog | ShowSaveAsDialog
  | ShowBackgroundColorDialog | ShowExportToPNGDialog | ShowNotSavedDialog
  | TryCloseWindow | Exit

subsection \<open>Observable effects\<close>

text \<open>
  Every call that leaves \<open>Application\<close> (standard output, the logger, the main window,
  message boxes, the settings store, the export dialog, \<open>QApplication::exit\<close>, the
  methods of the Mediator, the signal \<open>actionTriggered\<close>) is recorded, in program
  order, as an event. A call of the Mediator is recorded with its arguments.
\<close>

type_synonym QSize = "nat \<times> nat"
type_synonym QColor = "nat \<times> nat \<times> nat"

datatype MediatorRequest =
    Req_initializeNewMindMap
  | Req_openMindMap string
  | Req_saveMindMap
  | Req_saveMindMapAs string
  | Req_setBackgroundColor QColor
  | Req_zoomForExport
  | Req_exportToPNG string QSize bool

datatype event =
    StdOut string
  | LogDebug string
  | LogInfo string
  | LogWarning string
  | LogError string
  | InstallTranslator string
  | MainWindow_saveWindowSize
  | MainWindow_close
  | MainWindow_setTitle
  | MainWindow_enableSave bool
  | MainWindow_disableUndoAndRedo
  | MainWindow_setSaveActionStatesOnOpenedMindMap
  | SaveRecentPath string
  | MessageBox string
  | ExportDialog_setImageSize QSize
  | ExportDialog_finishExport
  | QApplication_exit int
  | MediatorCalled MediatorRequest
  | ActionTriggered Action

text \<open>The Actions submitted (signal \<open>actionTriggered\<close>) among a list of events.\<close>

fun actionsOf :: "event list \<Rightarrow> Action list" where
  "actionsOf [] = []"
| "actionsOf (ActionTriggered a # es) = a # actionsOf es"
| "actionsOf (e # es) = actionsOf es"

text \<open>The requests made to the Mediator among a list of events.\<close>

fun requestsOf :: "event list \<Rightarrow> MediatorRequest list" where
  "requestsOf [] = []"
| "requestsOf (MediatorCalled r # es) = r # requestsOf es"
| "requestsOf (e # es) = requestsOf es"

subsection \<open>The document and its history\<close>

text \<open>
  Of the Mediator only the declarations of \<^verbatim>\<open>src/mediator.hpp\<close> are among the sources;
  \<^verbatim>\<open>mediator.cpp\<close> and the classes behind it (\<open>EditorData\<close>, the undo stack, the
  graph) are not. Nodes are identified by their index, an edge is a pair of node ids.
  Node positions are layout geometry and are left out.
\<close>

type_synonym Graph = "nat set \<times> (nat \<times> nat) set"

text \<open>
  Modelled from the spec: the Document is a set of nodes, a set of edges, an optional
  file path and the modified flag (\<open>EditorData\<close> is missing).
\<close>

record Document =
  nodes :: "nat set"
  edges :: "(nat \<times> nat) set"
  filePath :: "string option"
  isModified :: bool

text \<open>
  Modelled from the spec: the graph of a Document, as handed to \<open>save(Graph, path)\<close>
  (\<open>EditorData\<close> is missing).
\<close>

definition graphOf :: "Document \<Rightarrow> Graph" where
  "graphOf d = (nodes d, edges d)"

text \<open>
  Modelled from the spec: an edge references a node when the node is one of its two
  endpoints (the graph classes are missing).
\<close>

definition touches :: "nat \<Rightarrow> nat \<times> nat \<Rightarrow> bool" where
  "touches n e = (fst e = n \<or> snd e = n)"

text \<open>
  Modelled from the spec: an undo command is a reversible record of one graph mutation
  (the undo stack is missing). The mutations that push one are the creation of a node,
  with its structural edge if a source is given, and the deletion of a node, with the
  edges the deletion cascades to.
\<close>

datatype command =
    AddNode nat "nat option"
  | DeleteNode nat "(nat \<times> nat) set"

text \<open>
  Modelled from the spec: the failure kinds of the specification's error design
  (\<^verbatim>\<open>mediator.cpp\<close> is missing; no operation declared in \<^verbatim>\<open>mediator.hpp\<close> has a
  result of such a type).
\<close>

datatype MediatorError = InvalidReference | NotFound


text \<open>
  Modelled from the spec: the Mediator owns the Document, the UndoEngine (two stacks of
  edit commands) and the Selection (at most one node, held by its id); it also keeps
  the background colour. (\<^verbatim>\<open>mediator.cpp\<close> and \<open>EditorData\<close> are missing; the
  header shows pointers to the editor data, scene and view only.)
\<close>

record Mediator =
  document :: Document
  undoStack :: "command list"
  redoStack :: "command list"
  selection :: "nat option"
  backgroundColor :: QColor

subsection \<open>Constants and platform services the sources do not define\<close>

text \<open>
  \<^verbatim>\<open>config.hpp\<close> (\<open>VERSION\<close>, \<open>Config::COPYRIGHT\<close>, \<open>Config::FILE_EXTENSION\<close>,
  \<open>Config::TRANSLATIONS_RESOURCE_BASE\<close>) is not among the sources, and the locale,
  translator and translation function \<open>tr\<close> belong to Qt: all are parameters. So are
  the file format (\<open>load(path) -> Graph | Error\<close> and \<open>save(Graph, path) -> Error?\<close>
  in the specification) and \<open>Mediator::initializeNewMindMap\<close>, which is declared in
  \<^verbatim>\<open>mediator.hpp\<close> and described nowhere.
\<close>

record Platform =
  VERSION :: string
  COPYRIGHT :: string
  FILE_EXTENSION :: string
  TRANSLATIONS_RESOURCE_BASE :: string
  systemLocaleName :: string
  translatorLoad :: "string \<Rightarrow> bool"
  tr :: "string \<Rightarrow> string"
  load :: "string \<Rightarrow> Graph option"
  save :: "Graph \<Rightarrow> string \<Rightarrow> bool"
  newMindMap :: "Mediator \<Rightarrow> Mediator"

subsection \<open>Mediator operations\<close>

text \<open>
  Modelled from the spec: the forward and the inverse effect of an edit command on the
  graph (the undo stack and \<^verbatim>\<open>mediator.cpp\<close> are missing). Deleting a node removes
  every edge that references it, and the command keeps those edges for the inverse;
  the inverse of an addition removes the node and the structural edge that came with it.
\<close>

fun applyForward :: "command \<Rightarrow> Document \<Rightarrow> Document" where
  "applyForward (AddNode n src) d =
     d\<lparr>nodes := insert n (nodes d),
       edges := (case src of None \<Rightarrow> edges d | Some s \<Rightarrow> insert (s, n) (edges d))\<rparr>"
| "applyForward (DeleteNode n es) d =
     d\<lparr>nodes := nodes d - {n}, edges := {e \<in> edges d. \<not> touches n e}\<rparr>"



text \<open>
  Modelled from the spec: the Selection is a weak reference, cleared when the node it
  references is no longer in the graph (\<^verbatim>\<open>mediator.cpp\<close> is missing).
\<close>

definition dropDanglingSelection :: "Mediator \<Rightarrow> Mediator" where
  "dropDanglingSelection m =
     (case selection m of
        None \<Rightarrow> m
      | Some n \<Rightarrow> if n \<in> nodes (document m) then m else m\<lparr>selection := None\<rparr>)"






text \<open>
  Modelled from the spec: an edit recorded on top of the undo history is the last change
  of the graph when the graph is as the command leaves it: an added node and its
  structural edge are there; a deleted node and every edge referencing it are not, and
  the edges the command keeps for the inverse all reference the node.
  (\<^verbatim>\<open>mediator.cpp\<close> and the undo stack are missing.)
\<close>

fun justApplied :: "command \<Rightarrow> Document \<Rightarrow> bool" where
  "justApplied (AddNode n src) d =
     (n \<in> nodes d \<and> (case src of None \<Rightarrow> True | Some s \<Rightarrow> (s, n) \<in> edges d))"
| "justApplied (DeleteNode n es) d =
     (n \<notin> nodes d \<and> {e \<in> edges d. touches n e} = {} \<and> {e \<in> es. \<not> touches n e} = {})"



text \<open>
  Modelled from the spec: \<open>isUndoable\<close> and \<open>isRedoable\<close> are pure queries that tell
  whether the respective stack is non-empty (\<^verbatim>\<open>mediator.cpp\<close> is missing).
\<close>

definition isUndoable :: "Mediator \<Rightarrow> bool" where
  "isUndoable m = (undoStack m \<noteq> [])"

definition isRedoable :: "Mediator \<Rightarrow> bool" where
  "isRedoable m = (redoStack m \<noteq> [])"

text \<open>
  Modelled from the spec: \<open>openMindMap(path) -> success\<close> replaces the Document with the
  parsed graph, sets the file path, clears the modified flag and both stacks; on a read
  or parse failure it returns false and changes nothing. The graph being replaced, the
  selection is dropped. (\<^verbatim>\<open>mediator.cpp\<close> is missing.)
\<close>

definition Mediator_openMindMap :: "Platform \<Rightarrow> string \<Rightarrow> Mediator \<Rightarrow> bool \<times> Mediator" where
  "Mediator_openMindMap P path m =
     (case load P path of
        None \<Rightarrow> (False, m)
      | Some (ns, es) \<Rightarrow>
          (True, m\<lparr>document := \<lparr>nodes = ns, edges = es, filePath = Some path, isModified = False\<rparr>,
                   undoStack := [], redoStack := [], selection := None\<rparr>))"

text \<open>
  Modelled from the spec: \<open>saveMindMap() -> success\<close> requires the file path to be set
  (without one nothing is written and the result is false); a failed write returns false
  with the Document unchanged; success clears the modified flag.
  (\<^verbatim>\<open>mediator.cpp\<close> is missing.)
\<close>

definition Mediator_saveMindMap :: "Platform \<Rightarrow> Mediator \<Rightarrow> bool \<times> Mediator" where
  "Mediator_saveMindMap P m =
     (case filePath (document m) of
        None \<Rightarrow> (False, m)
      | Some path \<Rightarrow>
          if save P (graphOf (document m)) path
          then (True, m\<lparr>document := (document m)\<lparr>isModified := False\<rparr>\<rparr>)
          else (False, m))"

text \<open>
  Modelled from the spec: \<open>saveMindMapAs(path) -> success\<close> writes to the path; success
  sets the file path and clears the modified flag; on failure the Document is unchanged.
  (\<^verbatim>\<open>mediator.cpp\<close> is missing.)
\<close>

definition Mediator_saveMindMapAs :: "Platform \<Rightarrow> string \<Rightarrow> Mediator \<Rightarrow> bool \<times> Mediator" where
  "Mediator_saveMindMapAs P path m =
     (if save P (graphOf (document m)) path
      then (True, m\<lparr>document := (document m)\<lparr>filePath := Some path, isModified := False\<rparr>\<rparr>)
      else (False, m))"

text \<open>
  Modelled from the spec: \<open>setBackgroundColor(color)\<close> is a pure property mutation that
  marks the Document modified. (\<^verbatim>\<open>mediator.cpp\<close> is missing.)
\<close>

definition setBackgroundColor :: "QColor \<Rightarrow> Mediator \<Rightarrow> Mediator" where
  "setBackgroundColor c m =
     m\<lparr>backgroundColor := c, document := (document m)\<lparr>isModified := True\<rparr>\<rparr>"

text \<open>
  Modelled from the spec: \<open>exportToPNG(path, size, transparent)\<close> is a read-only render
  of the current graph to an external sink. (\<^verbatim>\<open>mediator.cpp\<close> is missing.)
\<close>

definition exportToPNG :: "string \<Rightarrow> QSize \<Rightarrow> bool \<Rightarrow> Mediator \<Rightarrow> Mediator" where
  "exportToPNG fileName imageSize transparentBackground m = m"

subsection \<open>The application object\<close>

datatype failure = UserException string | OutOfRange

record Application =
  m_mindMapFile :: string
  m_appTranslator :: "string option"
  m_mediator :: Mediator
  events :: "event list"

definition record_event :: "event \<Rightarrow> Application \<Rightarrow> Application" where
  "record_event e app = app\<lparr>events := events app @ [e]\<rparr>"

subsection \<open>Argument parsing\<close>

text \<open>\<open>printHelp\<close>: one event per line written to \<open>std::cout\<close>.\<close>

definition helpText :: "Platform \<Rightarrow> string list" where
  "helpText P =
     [[], ''Heimer version '' @ VERSION P,
      COPYRIGHT P, [],
      ''Usage: heimer [options] [mindMapFile]'', [],
      ''Options:'',
      ''--help        Show this help.'',
      ''--lang [lang] Force language: fi.'',
      []]"

definition printHelp :: "Platform \<Rightarrow> Application \<Rightarrow> Application" where
  "printHelp P app = app\<lparr>events := events app @ map StdOut (helpText P)\<rparr>"

definition initTranslations :: "Platform \<Rightarrow> string \<Rightarrow> Application \<Rightarrow> Application" where
  "initTranslations P lang0 app =
     (let lang = (if lang0 = [] then systemLocaleName P else lang0) in
      if translatorLoad P (TRANSLATIONS_RESOURCE_BASE P @ lang)
      then record_event (LogInfo (''Loaded translations for '' @ lang))
             (record_event (InstallTranslator (TRANSLATIONS_RESOURCE_BASE P @ lang))
               (app\<lparr>m_appTranslator := Some (TRANSLATIONS_RESOURCE_BASE P @ lang)\<rparr>))
      else record_event (LogWarning (''Failed to load translations for '' @ lang)) app)"

text \<open>
  The \<open>for\<close> loop of \<open>Application::parseArgs\<close>, entered with \<open>i = 1\<close> and
  \<open>lang = ""\<close>. The counter is an \<open>unsigned int\<close>; \<open>args\<close> has \<open>argc\<close> elements and
  \<open>argc\<close> is an \<open>int\<close>, so neither \<open>i + 1\<close> nor \<open>i + i\<close> reaches \<open>2^32\<close> while
  \<open>i < args.size()\<close>, and the counter is a natural number here. The guard of the second
  branch is \<open>(i + i) < args.size()\<close>, as in the source. \<open>std::vector::operator[]\<close> is
  not checked; the model makes a read beyond the end the failure \<open>OutOfRange\<close>.
  An exception leaves the loop with the application as it is at the \<open>throw\<close>.
\<close>

function parseArgs_loop ::
  "Platform \<Rightarrow> string list \<Rightarrow> nat \<Rightarrow> string \<Rightarrow> Application
     \<Rightarrow> (failure \<times> Application) + (string \<times> Application)" where
  "parseArgs_loop P args i lang app =
     (if i < length args then
        (if args ! i = ''-h'' \<or> args ! i = ''--help'' then
           Inl (UserException ''Exit due to help.'', printHelp P app)
         else if args ! i = ''--lang'' \<and> i + i < length args then
           (if i + 1 < length args
            then parseArgs_loop P args (i + 1 + 1) (args ! (i + 1)) app
            else Inl (OutOfRange, app))
         else parseArgs_loop P args (i + 1) lang (app\<lparr>m_mindMapFile := args ! i\<rparr>))
      else Inr (lang, app))"
  by pat_completeness auto
termination
  by (relation "measure (\<lambda>(P, args, i, lang, app). length args - i)") auto

definition parseArgs ::
  "Platform \<Rightarrow> string list \<Rightarrow> Application \<Rightarrow> (failure \<times> Application) + Application" where
  "parseArgs P argv app =
     (case parseArgs_loop P argv 1 [] app of
        Inl e \<Rightarrow> Inl e
      | Inr (lang, app') \<Rightarrow> Inr (initTranslations P lang app'))"

text \<open>The two spellings of the help option that the loop compares against.\<close>

definition isHelp :: "string \<Rightarrow> bool" where
  "isHelp a = (a = ''-h'' \<or> a = ''--help'')"

text \<open>
  From the specification's words, for comparison with the loop: the positional
  arguments of \<open>prog [options] [mindMapFile]\<close> are the arguments that are neither an
  option (\<open>-h\<close>, \<open>--help\<close>, \<open>--lang\<close>) nor the code that follows \<open>--lang\<close>.
\<close>

fun spec_positionals :: "string list \<Rightarrow> string list" where
  "spec_positionals [] = []"
| "spec_positionals (a # as) =
     (if a = ''--lang'' then (case as of [] \<Rightarrow> [] | code # rest \<Rightarrow> spec_positionals rest)
      else if isHelp a then spec_positionals as
      else a # spec_positionals as)"

subsection \<open>What the user and the view answer during one effect\<close>

text \<open>
  The dialogs are modal: each is a call that returns the user's answer. A file dialog
  returns the empty string when it is canceled; \<open>QColorDialog::getColor\<close> returns an
  invalid colour when it is canceled (\<open>None\<close>); \<open>showNotSavedDialog\<close> returns the code
  of the button pressed; the export dialog, while it runs, may emit \<open>pngExportRequested\<close>
  (connected to \<open>Mediator::exportToPNG\<close> in the constructor) or be closed without.
  \<open>Mediator::zoomForExport\<close> adjusts the view and returns a size.
\<close>

datatype StandardButton = Save | Discard | Cancel | OtherButton

record Answers =
  getOpenFileName :: string
  getSaveFileName :: string
  getColor :: "QColor option"
  notSavedDialogExec :: StandardButton
  pngExportRequested :: "(string \<times> QSize \<times> bool) option"
  zoomForExport :: QSize

subsection \<open>The effects of \<open>Application\<close>\<close>

definition EXIT_SUCCESS :: int where
  "EXIT_SUCCESS = 0"

definition record_events :: "event list \<Rightarrow> Application \<Rightarrow> Application" where
  "record_events es app = app\<lparr>events := events app @ es\<rparr>"

definition showMessageBox :: "string \<Rightarrow> Application \<Rightarrow> Application" where
  "showMessageBox message app = record_event (MessageBox message) app"

definition saveRecentPath :: "string \<Rightarrow> Application \<Rightarrow> Application" where
  "saveRecentPath fileName app = record_event (SaveRecentPath fileName) app"

definition showNotSavedDialog :: "Answers \<Rightarrow> StandardButton" where
  "showNotSavedDialog A = notSavedDialogExec A"

definition doOpenMindMap :: "Platform \<Rightarrow> string \<Rightarrow> Application \<Rightarrow> Application" where
  "doOpenMindMap P fileName app =
     (let a1 = record_events
                 [LogDebug (''Opening '' @ [CHR 0x27] @ fileName),
                  MediatorCalled (Req_openMindMap fileName)] app;
          (opened, m) = Mediator_openMindMap P fileName (m_mediator a1);
          a2 = a1\<lparr>m_mediator := m\<rparr>
      in if opened then
           record_event (ActionTriggered MindMapOpened)
             (record_event MainWindow_setSaveActionStatesOnOpenedMindMap
               (saveRecentPath fileName
                 (record_event MainWindow_disableUndoAndRedo a2)))
         else a2)"

text \<open>
  \<open>loadRecentPath\<close> only reads the settings store to seed the dialog; the dialog's
  answer is \<open>getOpenFileName\<close>.
\<close>

definition openMindMap :: "Platform \<Rightarrow> Answers \<Rightarrow> Application \<Rightarrow> Application" where
  "openMindMap P A app =
     (let a1 = record_event (LogDebug ''Open file'') app;
          fileName = getOpenFileName A
      in if fileName \<noteq> [] then doOpenMindMap P fileName a1 else a1)"

definition openArgMindMap :: "Platform \<Rightarrow> Application \<Rightarrow> Application" where
  "openArgMindMap P app = doOpenMindMap P (m_mindMapFile app) app"

definition saveMindMap :: "Platform \<Rightarrow> Application \<Rightarrow> Application" where
  "saveMindMap P app =
     (let a1 = record_events [LogDebug ''Save..'', MediatorCalled Req_saveMindMap] app;
          (saved, m) = Mediator_saveMindMap P (m_mediator a1);
          a2 = a1\<lparr>m_mediator := m\<rparr>
      in if \<not> saved then
           (let msg = tr P ''Failed to save file.'' in
            record_event (ActionTriggered MindMapSaveFailed)
              (showMessageBox msg (record_event (LogError msg) a2)))
         else
           record_event (ActionTriggered MindMapSaved)
             (record_event (MainWindow_enableSave False) a2))"

definition saveMindMapAs :: "Platform \<Rightarrow> Answers \<Rightarrow> Application \<Rightarrow> Application" where
  "saveMindMapAs P A app =
     (let a1 = record_event (LogDebug ''Save as..'') app;
          fileName0 = getSaveFileName A
      in if fileName0 = [] then a1
         else
           (let fileName = (if \<not> suffix (FILE_EXTENSION P) fileName0
                            then fileName0 @ FILE_EXTENSION P else fileName0);
                a2 = record_event (MediatorCalled (Req_saveMindMapAs fileName)) a1;
                (saved, m) = Mediator_saveMindMapAs P fileName (m_mediator a2);
                a3 = a2\<lparr>m_mediator := m\<rparr>
            in if saved then
                 (let msg = tr P (''File '' @ [CHR 0x27]) @ fileName @ tr P ([CHR 0x27] @ '' saved.'') in
                  record_event (ActionTriggered MindMapSavedAs)
                    (record_event (LogDebug msg) a3))
               else
                 (let msg = tr P (''Failed to save file as '' @ [CHR 0x27]) @ fileName @ [CHR 0x27] @ ''.'' in
                  record_event (ActionTriggered MindMapSaveAsFailed)
                    (showMessageBox msg (record_event (LogError msg) a3)))))"

text \<open>
  The file name that \<open>saveMindMapAs\<close> hands to the Mediator for a non-empty answer of
  the dialog (the \<open>endsWith\<close> test and the append of the source), named for reference.
\<close>

definition saveAsName :: "Platform \<Rightarrow> string \<Rightarrow> string" where
  "saveAsName P f = (if \<not> suffix (FILE_EXTENSION P) f then f @ FILE_EXTENSION P else f)"

definition showBackgroundColorDialog :: "Answers \<Rightarrow> Application \<Rightarrow> Application" where
  "showBackgroundColorDialog A app =
     (let a1 = (case getColor A of
                  Some color \<Rightarrow>
                    (record_event (MediatorCalled (Req_setBackgroundColor color)) app)
                      \<lparr>m_mediator := setBackgroundColor color (m_mediator app)\<rparr>
                | None \<Rightarrow> app)
      in record_event (ActionTriggered BackgroundColorChanged) a1)"

text \<open>
  While \<open>m_exportToPNGDialog->exec()\<close> runs, a request of the user reaches
  \<open>Mediator::exportToPNG\<close> through the connection made in the constructor, and the
  Mediator's \<open>exportFinished\<close> reaches the dialog's \<open>finishExport\<close>.
\<close>

definition showExportToPNGDialog :: "Answers \<Rightarrow> Application \<Rightarrow> Application" where
  "showExportToPNGDialog A app =
     (let a1 = record_events
                 [MediatorCalled Req_zoomForExport,
                  ExportDialog_setImageSize (zoomForExport A)] app;
          a2 = (case pngExportRequested A of
                  None \<Rightarrow> a1
                | Some (fileName, imageSize, transparentBackground) \<Rightarrow>
                    (record_events
                       [MediatorCalled (Req_exportToPNG fileName imageSize transparentBackground),
                        ExportDialog_finishExport] a1)
                      \<lparr>m_mediator :=
                         exportToPNG fileName imageSize transparentBackground (m_mediator a1)\<rparr>)
      in record_event (ActionTriggered ExportedToPNG) a2)"

text \<open>
  \<open>Application::runState\<close>, one equation per \<open>case\<close> label in the order of the source
  (\<open>default\<close> shares the branch of \<open>Edit\<close>; the inner \<open>switch\<close> on the button has no
  \<open>default\<close>). The signal \<open>actionTriggered\<close> is connected to the state machine, which
  is not among the sources: a submission is recorded as the event \<open>ActionTriggered\<close>.
\<close>

fun runState :: "Platform \<Rightarrow> Answers \<Rightarrow> State \<Rightarrow> Application \<Rightarrow> Application" where
  "runState P A TryCloseWindow app =
     record_events [MainWindow_saveWindowSize, MainWindow_close] app"
| "runState P A Exit app =
     record_events [MainWindow_saveWindowSize, QApplication_exit EXIT_SUCCESS] app"
| "runState P A Edit app = record_event MainWindow_setTitle app"
| "runState P A InitializeNewMindMap app =
     (record_event (MediatorCalled Req_initializeNewMindMap) app)
       \<lparr>m_mediator := newMindMap P (m_mediator app)\<rparr>"
| "runState P A SaveMindMap app = saveMindMap P app"
| "runState P A ShowBackgroundColorDialog app = showBackgroundColorDialog A app"
| "runState P A ShowExportToPNGDialog app = showExportToPNGDialog A app"
| "runState P A ShowNotSavedDialog app =
     (case showNotSavedDialog A of
        Save \<Rightarrow> record_event (ActionTriggered NotSavedDialogAccepted) app
      | Discard \<Rightarrow> record_event (ActionTriggered NotSavedDialogDiscarded) app
      | Cancel \<Rightarrow> record_event (ActionTriggered NotSavedDialogCanceled) app
      | OtherButton \<Rightarrow> app)"
| "runState P A ShowSaveAsDialog app = saveMindMapAs P A app"
| "runState P A ShowOpenDialog app = openMindMap P A app"

text \<open>A run of the driver: the states it is handed, each with the answers given during it.\<close>

fun runStates :: "Platform \<Rightarrow> (Answers \<times> State) list \<Rightarrow> Application \<Rightarrow> Application" where
  "runStates P [] app = app"
| "runStates P ((A, s) # steps) app = runStates P steps (runState P A s app)"

text \<open>The events that one execution of \<open>runState\<close> adds to those recorded before.\<close>

definition effects :: "Platform \<Rightarrow> Answers \<Rightarrow> State \<Rightarrow> Application \<Rightarrow> event list" where
  "effects P A s app = drop (length (events app)) (events (runState P A s app))"

subsection \<open>The workflow state machine\<close>

text \<open>
  Modelled from the spec: the operation (new, open or close) that an unsaved-changes
  prompt interrupted, kept in an explicit slot as the specification's design notes ask
  (\<^verbatim>\<open>statemachine.hpp\<close> and \<^verbatim>\<open>statemachine.cpp\<close> are missing).
\<close>

datatype PendingOperation = PendingNew | PendingOpen | PendingClose

text \<open>
  Modelled from the spec: the guards are a read-only snapshot
  \<open>{isModified, hasNodes, hasPendingFile}\<close> (\<^verbatim>\<open>statemachine.cpp\<close> is missing).
\<close>

record Guards =
  guardIsModified :: bool
  guardHasNodes :: bool
  guardHasPendingFile :: bool

text \<open>
  Modelled from the spec: the machine owns its current State, and the slot for the
  pending operation (\<^verbatim>\<open>statemachine.cpp\<close> is missing).
\<close>

record Machine =
  currentState :: State
  pendingOperation :: "PendingOperation option"

text \<open>
  Modelled from the spec: the state in which a pending operation is resumed: new in
  \<open>InitializeNewMindMap\<close>, open in \<open>ShowOpenDialog\<close>, close in \<open>TryCloseWindow\<close>; with
  nothing pending the machine returns to \<open>Edit\<close> (\<^verbatim>\<open>statemachine.cpp\<close> is missing).
\<close>

fun resume :: "PendingOperation option \<Rightarrow> State" where
  "resume None = Edit"
| "resume (Some PendingNew) = InitializeNewMindMap"
| "resume (Some PendingOpen) = ShowOpenDialog"
| "resume (Some PendingClose) = TryCloseWindow"

text \<open>
  Modelled from the spec: \<open>RequestNew\<close>, \<open>RequestOpen\<close> and \<open>RequestClose\<close> lead to
  \<open>ShowNotSavedDialog\<close> when the Document is modified, the operation being kept as
  pending, and to the operation's own state otherwise (\<^verbatim>\<open>statemachine.cpp\<close> is
  missing).
\<close>

fun requested :: "PendingOperation \<Rightarrow> Guards \<Rightarrow> Machine" where
  "requested op g =
     (if guardIsModified g
      then \<lparr>currentState = ShowNotSavedDialog, pendingOperation = Some op\<rparr>
      else \<lparr>currentState = resume (Some op), pendingOperation = None\<rparr>)"

text \<open>
  Modelled from the spec: the entries of the transition table, Action by Action; a
  successful save resumes the pending operation, if there is one; unlisted Actions
  return to \<open>Edit\<close> (\<^verbatim>\<open>statemachine.cpp\<close> is missing).
\<close>

fun onAction :: "Machine \<Rightarrow> Action \<Rightarrow> Guards \<Rightarrow> Machine" where
  "onAction M RequestNew g = requested PendingNew g"
| "onAction M RequestOpen g = requested PendingOpen g"
| "onAction M RequestClose g = requested PendingClose g"
| "onAction M NotSavedDialogAccepted g = M\<lparr>currentState := SaveMindMap\<rparr>"
| "onAction M NotSavedDialogDiscarded g =
     \<lparr>currentState = resume (pendingOperation M), pendingOperation = None\<rparr>"
| "onAction M NotSavedDialogCanceled g = \<lparr>currentState = Edit, pendingOperation = None\<rparr>"
| "onAction M MindMapSaved g =
     \<lparr>currentState = resume (pendingOperation M), pendingOperation = None\<rparr>"
| "onAction M MindMapSavedAs g =
     \<lparr>currentState = resume (pendingOperation M), pendingOperation = None\<rparr>"
| "onAction M MindMapSaveFailed g = \<lparr>currentState = Edit, pendingOperation = None\<rparr>"
| "onAction M MindMapSaveAsFailed g = \<lparr>currentState = Edit, pendingOperation = None\<rparr>"
| "onAction M RequestExport g = M\<lparr>currentState := ShowExportToPNGDialog\<rparr>"
| "onAction M RequestBackgroundColor g = M\<lparr>currentState := ShowBackgroundColorDialog\<rparr>"
| "onAction M RequestSave g = M\<lparr>currentState := SaveMindMap\<rparr>"
| "onAction M RequestSaveAs g = M\<lparr>currentState := ShowSaveAsDialog\<rparr>"
| "onAction M a g = \<lparr>currentState = Edit, pendingOperation = None\<rparr>"

text \<open>
  Modelled from the spec: \<open>transition(currentState, action, guards)\<close>, a total function;
  \<open>Exit\<close> is terminal, and from \<open>TryCloseWindow\<close>, whose effect the driver has run, the
  machine goes to \<open>Exit\<close> (\<^verbatim>\<open>statemachine.cpp\<close> is missing).
\<close>

definition transition :: "Machine \<Rightarrow> Action \<Rightarrow> Guards \<Rightarrow> Machine" where
  "transition M a g =
     (if currentState M = Exit then M
      else if currentState M = TryCloseWindow then M\<lparr>currentState := Exit\<rparr>
      else onAction M a g)"

subsection \<open>Concrete inputs\<close>

text \<open>
  A platform, mediators (an empty one, one with two connected nodes, and that one after
  its second node was deleted and the map saved) and an application object on which the
  results are run.
\<close>

definition examplePlatform :: Platform where
  "examplePlatform =
     \<lparr>VERSION = ''1.0'', COPYRIGHT = ''Copyright'', FILE_EXTENSION = ''.alz'',
      TRANSLATIONS_RESOURCE_BASE = '':/translations/heimer_'',
      systemLocaleName = ''en_GB'',
      translatorLoad = (\<lambda>name. False),
      tr = (\<lambda>text. text),
      load = (\<lambda>path. if path = ''map.alz'' then Some ({0, 1}, {(0, 1)}) else None),
      save = (\<lambda>g path. path = ''ok.alz''),
      newMindMap = (\<lambda>m. m)\<rparr>"

definition emptyMediator :: Mediator where
  "emptyMediator =
     \<lparr>document = \<lparr>nodes = {}, edges = {}, filePath = None, isModified = False\<rparr>,
      undoStack = [], redoStack = [], selection = None, backgroundColor = (255, 255, 255)\<rparr>"

definition initialApplication :: Application where
  "initialApplication =
     \<lparr>m_mindMapFile = [], m_appTranslator = None, m_mediator = emptyMediator, events = []\<rparr>"



definition cancelEverything :: Answers where
  "cancelEverything =
     \<lparr>getOpenFileName = [], getSaveFileName = [], getColor = None,
      notSavedDialogExec = Cancel, pngExportRequested = None, zoomForExport = (640, 480)\<rparr>"

section \<open>Properties\<close>

subsection \<open>The argument loop\<close>

text \<open>The loop's defining equation is unfolded by hand, one index at a time.\<close>

declare parseArgs_loop.simps [simp del]

text \<open>
  From index 1 on, the loop fails only with the help exception, only at a help token,
  and exactly the usage text has been printed by then. Since \<open>i + 1 \<le> i + i\<close> for
  \<open>1 \<le> i\<close>, the read of \<open>args[i + 1]\<close> is always in range.
\<close>

lemma parseArgs_loop_Inl:
  "1 \<le> i \<Longrightarrow> parseArgs_loop P args i lang app = Inl (e, app') \<Longrightarrow>
     e = UserException ''Exit due to help.'' \<and>
     (\<exists>j. i \<le> j \<and> j < length args \<and> isHelp (args ! j)) \<and>
     events app' = events app @ map StdOut (helpText P)"
proof (induction P args i lang app rule: parseArgs_loop.induct)
  case (1 P args i lang app)
  show ?case
  proof (cases "i < length args")
    case False
    with "1.prems" show ?thesis by (simp add: parseArgs_loop.simps[of P args i])
  next
    case lt: True
    show ?thesis
    proof (cases "isHelp (args ! i)")
      case True
      with lt "1.prems" show ?thesis
        by (auto simp: parseArgs_loop.simps[of P args i] isHelp_def printHelp_def)
    next
      case nh: False
      show ?thesis
      proof (cases "args ! i = ''--lang'' \<and> i + i < length args")
        case True
        with lt nh "1.prems" have lt1: "i + 1 < length args" by simp
        from True lt nh lt1 "1.prems"
        have "parseArgs_loop P args (i + 1 + 1) (args ! (i + 1)) app = Inl (e, app')"
          by (simp add: parseArgs_loop.simps[of P args i] isHelp_def)
        with "1.IH"(1)[OF lt _ True lt1] nh
        have "e = UserException ''Exit due to help.'' \<and>
          (\<exists>j. i + 1 + 1 \<le> j \<and> j < length args \<and> isHelp (args ! j)) \<and>
          events app' = events app @ map StdOut (helpText P)"
          by (simp add: isHelp_def)
        then obtain j where "i + 1 + 1 \<le> j" "j < length args" "isHelp (args ! j)"
          "events app' = events app @ map StdOut (helpText P)" "e = UserException ''Exit due to help.''"
          by blast
        moreover from this have "i \<le> j" by simp
        ultimately show ?thesis by blast
      next
        case False
        from False lt nh "1.prems"
        have "parseArgs_loop P args (i + 1) lang (app\<lparr>m_mindMapFile := args ! i\<rparr>) = Inl (e, app')"
          by (auto simp add: parseArgs_loop.simps[of P args i] isHelp_def)
        with "1.IH"(2)[OF lt _ False] nh
        have "e = UserException ''Exit due to help.'' \<and>
          (\<exists>j. i + 1 \<le> j \<and> j < length args \<and> isHelp (args ! j)) \<and>
          events app' = events app @ map StdOut (helpText P)"
          by (simp add: isHelp_def)
        then obtain j where "i + 1 \<le> j" "j < length args" "isHelp (args ! j)"
          "events app' = events app @ map StdOut (helpText P)" "e = UserException ''Exit due to help.''"
          by auto
        moreover from this have "i \<le> j" by simp
        ultimately show ?thesis by blast
      qed
    qed
  qed
qed

text \<open>
  A help token that is not directly preceded by \<open>--lang\<close> cannot be skipped: the loop
  fails at it, or earlier.
\<close>

lemma parseArgs_loop_reaches_help:
  "1 \<le> i \<Longrightarrow> i \<le> j \<Longrightarrow> j < length args \<Longrightarrow> isHelp (args ! j) \<Longrightarrow>
   j = i \<or> args ! (j - 1) \<noteq> ''--lang'' \<Longrightarrow>
   \<exists>app'. parseArgs_loop P args i lang app = Inl (UserException ''Exit due to help.'', app')"
proof (induction P args i lang app rule: parseArgs_loop.induct)
  case (1 P args i lang app)
  from "1.prems" have lt: "i < length args" by simp
  show ?case
  proof (cases "isHelp (args ! i)")
    case True
    with lt show ?thesis
      by (simp add: parseArgs_loop.simps[of P args i] isHelp_def)
  next
    case nh: False
    with "1.prems" have ij: "i < j" by (cases "i = j") auto
    with "1.prems" have nl: "args ! (j - 1) \<noteq> ''--lang''" by simp
    show ?thesis
    proof (cases "args ! i = ''--lang'' \<and> i + i < length args")
      case True
      with "1.prems" have lt1: "i + 1 < length args" by simp
      from True nl ij have "i \<noteq> j - 1" by auto
      with ij have le: "i + 1 + 1 \<le> j" by simp
      from "1.prems" ij have "j = i + 1 + 1 \<or> args ! (j - 1) \<noteq> ''--lang''" by simp
      from "1.IH"(1)[OF lt _ True lt1 _ le "1.prems"(3) "1.prems"(4) this] nh
      have "\<exists>app'. parseArgs_loop P args (i + 1 + 1) (args ! (i + 1)) app =
              Inl (UserException ''Exit due to help.'', app')"
        by (simp add: isHelp_def)
      with True lt nh lt1 show ?thesis
        by (simp add: parseArgs_loop.simps[of P args i] isHelp_def)
    next
      case False
      from ij have le: "i + 1 \<le> j" by simp
      from "1.prems" ij have "j = i + 1 \<or> args ! (j - 1) \<noteq> ''--lang''" by simp
      from "1.IH"(2)[OF lt _ False _ le "1.prems"(3) "1.prems"(4) this] nh
      have "\<exists>app'. parseArgs_loop P args (i + 1) lang (app\<lparr>m_mindMapFile := args ! i\<rparr>) =
              Inl (UserException ''Exit due to help.'', app')"
        by (simp add: isHelp_def)
      with False lt nh show ?thesis
        by (auto simp add: parseArgs_loop.simps[of P args i] isHelp_def)
    qed
  qed
qed

text \<open>Without a help token from the current index on, the loop returns.\<close>

lemma parseArgs_loop_no_help:
  assumes "1 \<le> i" and "\<forall>j. i \<le> j \<and> j < length args \<longrightarrow> \<not> isHelp (args ! j)"
  shows "\<exists>lang' app'. parseArgs_loop P args i lang app = Inr (lang', app')"
proof (cases "parseArgs_loop P args i lang app")
  case (Inl x)
  obtain e app' where "x = (e, app')" by (cases x)
  with Inl parseArgs_loop_Inl[OF assms(1), of P args lang app e app'] assms(2)
  show ?thesis by blast
next
  case (Inr y)
  then show ?thesis by (cases y) simp
qed

text \<open>
  If the last argument cannot be skipped as the value of \<open>--lang\<close>, the loop reaches it
  in its last round, and there it can only take the file branch.
\<close>

lemma parseArgs_loop_last:
  "1 \<le> i \<Longrightarrow> i < length args \<Longrightarrow>
   \<forall>j. i \<le> j \<and> j < length args \<longrightarrow> \<not> isHelp (args ! j) \<Longrightarrow>
   i = length args - 1 \<or> args ! (length args - 2) \<noteq> ''--lang'' \<Longrightarrow>
   \<exists>lang' app'. parseArgs_loop P args i lang app = Inr (lang', app') \<and>
      m_mindMapFile app' = last args"
proof (induction P args i lang app rule: parseArgs_loop.induct)
  case (1 P args i lang app)
  from "1.prems" have lt: "i < length args" and nh: "\<not> isHelp (args ! i)" by auto
  from lt have ne: "args \<noteq> []" by auto
  show ?case
  proof (cases "args ! i = ''--lang'' \<and> i + i < length args")
    case True
    with "1.prems" have lt1: "i + 1 < length args" by simp
    with True "1.prems" have "i \<noteq> length args - 2" by auto
    with lt1 have lt2: "i + 1 + 1 < length args" by simp
    from "1.prems" lt1 have d: "i + 1 + 1 = length args - 1 \<or> args ! (length args - 2) \<noteq> ''--lang''"
      by auto
    from "1.prems" have n: "\<forall>j. i + 1 + 1 \<le> j \<and> j < length args \<longrightarrow> \<not> isHelp (args ! j)" by simp
    from "1.IH"(1)[OF lt _ True lt1 _ lt2 n d] nh
    have "\<exists>lang' app'. parseArgs_loop P args (i + 1 + 1) (args ! (i + 1)) app = Inr (lang', app') \<and>
            m_mindMapFile app' = last args"
      by (simp add: isHelp_def)
    with True lt nh lt1 show ?thesis
      by (simp add: parseArgs_loop.simps[of P args i] isHelp_def)
  next
    case False
    show ?thesis
    proof (cases "i = length args - 1")
      case True
      with lt have "\<not> i + 1 < length args" by simp
      then have stop: "parseArgs_loop P args (i + 1) lang (app\<lparr>m_mindMapFile := args ! i\<rparr>) =
          Inr (lang, app\<lparr>m_mindMapFile := args ! i\<rparr>)"
        by (simp add: parseArgs_loop.simps[of P args "Suc i"])
      from False lt nh
      have step: "parseArgs_loop P args i lang app =
          parseArgs_loop P args (i + 1) lang (app\<lparr>m_mindMapFile := args ! i\<rparr>)"
        by (auto simp add: parseArgs_loop.simps[of P args i] isHelp_def)
      from True ne have "last args = args ! i" by (simp add: last_conv_nth)
      with step stop show ?thesis by simp
    next
      case mid: False
      with lt have lt1: "i + 1 < length args" by simp
      from "1.prems" mid have d: "i + 1 = length args - 1 \<or> args ! (length args - 2) \<noteq> ''--lang''"
        by auto
      from "1.prems" have n: "\<forall>j. i + 1 \<le> j \<and> j < length args \<longrightarrow> \<not> isHelp (args ! j)" by simp
      from "1.IH"(2)[OF lt _ False _ lt1 n d] nh
      have "\<exists>lang' app'. parseArgs_loop P args (i + 1) lang (app\<lparr>m_mindMapFile := args ! i\<rparr>) =
               Inr (lang', app') \<and> m_mindMapFile app' = last args"
        by (simp add: isHelp_def)
      with False lt nh show ?thesis
        by (auto simp add: parseArgs_loop.simps[of P args i] isHelp_def)
    qed
  qed
qed

lemma initTranslations_file [simp]:
  "m_mindMapFile (initTranslations P lang app) = m_mindMapFile app"
  by (simp add: initTranslations_def record_event_def Let_def)

subsection \<open>Claims about argument parsing\<close>

text \<open>
  C2. Claim: whenever \<open>--lang\<close> is followed by a language code, parsing sets the locale
  to that code and consumes both tokens. The guard of the source compares \<open>i + i\<close>, not
  \<open>i + 1\<close>, with the number of arguments. For \<open>heimer a.alz --lang fi\<close> the option stands
  at index 2 and \<open>2 + 2 < 4\<close> is false: \<open>--lang\<close> and then \<open>fi\<close> are taken as the
  mind-map file, and \<open>initTranslations\<close> receives the empty language (the system locale).
  With the option in front, at index 1, the same arguments are parsed as the claim says.
\<close>

theorem parseArgs_lang_after_file:
  "parseArgs P [''heimer'', ''a.alz'', ''--lang'', ''fi''] app =
     Inr (initTranslations P [] (app\<lparr>m_mindMapFile := ''fi''\<rparr>)) \<and>
   parseArgs P [''heimer'', ''--lang'', ''fi'', ''a.alz''] app =
     Inr (initTranslations P ''fi'' (app\<lparr>m_mindMapFile := ''a.alz''\<rparr>))"
  by (simp add: parseArgs_def parseArgs_loop.simps)

text \<open>
  C8, as stated, fails: in \<open>heimer --lang --help\<close> an argument equals \<open>--help\<close>, yet it
  is consumed as the value of \<open>--lang\<close> and parsing completes normally.
\<close>

theorem parseArgs_help_as_lang_counterexample:
  "isHelp ([''heimer'', ''--lang'', ''--help''] ! 2) \<and>
   parseArgs examplePlatform [''heimer'', ''--lang'', ''--help''] initialApplication =
     Inr (initTranslations examplePlatform ''--help'' initialApplication)"
  by (simp add: parseArgs_def parseArgs_loop.simps isHelp_def)

text \<open>
  C8, amended. Parsing raises the exit-requesting failure only with the usage text
  printed first and only if some argument after the program name equals \<open>-h\<close> or
  \<open>--help\<close>; it does raise whenever such an argument is not directly preceded by
  \<open>--lang\<close>; and for every argument vector without these tokens parsing completes
  normally.
\<close>

theorem parseArgs_exit_on_help:
  "(\<forall>e app'. parseArgs P argv app = Inl (e, app') \<longrightarrow>
       e = UserException ''Exit due to help.'' \<and>
       events app' = events app @ map StdOut (helpText P) \<and>
       (\<exists>j. 1 \<le> j \<and> j < length argv \<and> isHelp (argv ! j))) \<and>
   ((\<exists>j. 1 \<le> j \<and> j < length argv \<and> isHelp (argv ! j) \<and>
         (j = 1 \<or> argv ! (j - 1) \<noteq> ''--lang'')) \<longrightarrow>
       (\<exists>app'. parseArgs P argv app = Inl (UserException ''Exit due to help.'', app'))) \<and>
   ((\<forall>j. 1 \<le> j \<and> j < length argv \<longrightarrow> \<not> isHelp (argv ! j)) \<longrightarrow>
       (\<exists>app'. parseArgs P argv app = Inr app'))"
proof (intro conjI allI impI)
  fix e app'
  assume a: "parseArgs P argv app = Inl (e, app')"
  then have l: "parseArgs_loop P argv 1 [] app = Inl (e, app')"
    by (auto simp: parseArgs_def split: sum.splits prod.splits)
  from parseArgs_loop_Inl[OF _ l]
  show "e = UserException ''Exit due to help.''"
    and "events app' = events app @ map StdOut (helpText P)"
    and "\<exists>j. 1 \<le> j \<and> j < length argv \<and> isHelp (argv ! j)"
    by simp_all
next
  assume "\<exists>j. 1 \<le> j \<and> j < length argv \<and> isHelp (argv ! j) \<and>
         (j = 1 \<or> argv ! (j - 1) \<noteq> ''--lang'')"
  then obtain j where j: "1 \<le> j" "j < length argv" "isHelp (argv ! j)"
    "j = 1 \<or> argv ! (j - 1) \<noteq> ''--lang''" by blast
  from parseArgs_loop_reaches_help[OF _ j, of P "[]" app]
  show "\<exists>app'. parseArgs P argv app = Inl (UserException ''Exit due to help.'', app')"
    by (auto simp: parseArgs_def)
next
  assume "\<forall>j. 1 \<le> j \<and> j < length argv \<longrightarrow> \<not> isHelp (argv ! j)"
  from parseArgs_loop_no_help[OF _ this, of P "[]" app]
  show "\<exists>app'. parseArgs P argv app = Inr app'"
    by (auto simp: parseArgs_def)
qed

text \<open>C8 on two runs: \<open>heimer map.alz --help\<close> fails with the help exception, \<open>heimer map.alz\<close> returns.\<close>

theorem parseArgs_exit_on_help_witness:
  "(\<exists>app'. parseArgs examplePlatform [''heimer'', ''map.alz'', ''--help''] initialApplication =
        Inl (UserException ''Exit due to help.'', app')) \<and>
   (\<exists>app'. parseArgs examplePlatform [''heimer'', ''map.alz''] initialApplication = Inr app')"
proof
  have "\<exists>j. 1 \<le> j \<and> j < length [''heimer'', ''map.alz'', ''--help''] \<and>
          isHelp ([''heimer'', ''map.alz'', ''--help''] ! j) \<and>
          (j = 1 \<or> [''heimer'', ''map.alz'', ''--help''] ! (j - 1) \<noteq> ''--lang'')"
    by (rule exI[of _ 2]) (simp add: isHelp_def)
  with parseArgs_exit_on_help[of examplePlatform "[''heimer'', ''map.alz'', ''--help'']" initialApplication]
  show "\<exists>app'. parseArgs examplePlatform [''heimer'', ''map.alz'', ''--help''] initialApplication =
        Inl (UserException ''Exit due to help.'', app')"
    by blast
next
  have "\<forall>j. 1 \<le> j \<and> j < length [''heimer'', ''map.alz''] \<longrightarrow>
          \<not> isHelp ([''heimer'', ''map.alz''] ! j)"
    by (auto simp: isHelp_def less_Suc_eq)
  with parseArgs_exit_on_help[of examplePlatform "[''heimer'', ''map.alz'']" initialApplication]
  show "\<exists>app'. parseArgs examplePlatform [''heimer'', ''map.alz''] initialApplication = Inr app'"
    by blast
qed

text \<open>
  C10, as stated, fails: in \<open>heimer a.alz b.alz --lang\<close> the positional arguments are
  \<open>a.alz\<close> and \<open>b.alz\<close>, but the file chosen is the option token \<open>--lang\<close>, which has
  no value after it and falls into the file branch.
\<close>

theorem parseArgs_trailing_lang_counterexample:
  "spec_positionals (tl [''heimer'', ''a.alz'', ''b.alz'', ''--lang'']) = [''a.alz'', ''b.alz''] \<and>
   parseArgs examplePlatform [''heimer'', ''a.alz'', ''b.alz'', ''--lang''] initialApplication =
     Inr (initTranslations examplePlatform []
            (initialApplication\<lparr>m_mindMapFile := ''--lang''\<rparr>)) \<and>
   m_mindMapFile (initTranslations examplePlatform []
            (initialApplication\<lparr>m_mindMapFile := ''--lang''\<rparr>)) \<noteq>
     last (spec_positionals (tl [''heimer'', ''a.alz'', ''b.alz'', ''--lang'']))"
  by (simp add: parseArgs_def parseArgs_loop.simps isHelp_def)

text \<open>
  C10, amended. When no argument after the program name is \<open>-h\<close> or \<open>--help\<close> and the
  last argument is not directly preceded by \<open>--lang\<close>, parsing returns normally and the
  mind-map file is the last argument of the vector (be it the token \<open>--lang\<close> itself):
  every earlier file argument is silently overwritten, none is rejected.
\<close>

theorem parseArgs_last_argument_wins:
  assumes "2 \<le> length argv"
    and "\<forall>j. 1 \<le> j \<and> j < length argv \<longrightarrow> \<not> isHelp (argv ! j)"
    and "length argv = 2 \<or> argv ! (length argv - 2) \<noteq> ''--lang''"
  shows "\<exists>app'. parseArgs P argv app = Inr app' \<and> m_mindMapFile app' = last argv"
proof -
  from assms(1) have lt: "1 < length argv" by simp
  from assms(3) have d: "1 = length argv - 1 \<or> argv ! (length argv - 2) \<noteq> ''--lang''" by auto
  from parseArgs_loop_last[OF _ lt assms(2) d, of P "[]" app]
  show ?thesis by (auto simp: parseArgs_def)
qed

text \<open>C10 on a run: of \<open>heimer a.alz b.alz\<close> the file \<open>b.alz\<close> is kept.\<close>

theorem parseArgs_last_argument_wins_witness:
  "\<exists>app'. parseArgs examplePlatform [''heimer'', ''a.alz'', ''b.alz''] initialApplication = Inr app' \<and>
          m_mindMapFile app' = ''b.alz''"
proof -
  have h1: "2 \<le> length [''heimer'', ''a.alz'', ''b.alz'']" by simp
  have h2: "\<forall>j. 1 \<le> j \<and> j < length [''heimer'', ''a.alz'', ''b.alz''] \<longrightarrow>
          \<not> isHelp ([''heimer'', ''a.alz'', ''b.alz''] ! j)"
    by (auto simp: isHelp_def less_Suc_eq)
  have h3: "length [''heimer'', ''a.alz'', ''b.alz''] = 2 \<or>
      [''heimer'', ''a.alz'', ''b.alz''] ! (length [''heimer'', ''a.alz'', ''b.alz''] - 2) \<noteq> ''--lang''"
    by simp
  from parseArgs_last_argument_wins[OF h1 h2 h3, of examplePlatform initialApplication]
  show ?thesis by simp
qed

subsection \<open>The events of each effect\<close>

text \<open>
  Each effect only appends to the events recorded so far; what it appends is computed
  here once, state by state, and used by every result below.
\<close>

lemma actionsOf_append [simp]: "actionsOf (xs @ ys) = actionsOf xs @ actionsOf ys"
  by (induction xs rule: actionsOf.induct) simp_all

lemma requestsOf_append [simp]: "requestsOf (xs @ ys) = requestsOf xs @ requestsOf ys"
  by (induction xs rule: requestsOf.induct) simp_all

lemma record_event_simps [simp]:
  "events (record_event e app) = events app @ [e]"
  "m_mediator (record_event e app) = m_mediator app"
  "m_mindMapFile (record_event e app) = m_mindMapFile app"
  by (simp_all add: record_event_def)

lemma record_events_simps [simp]:
  "events (record_events es app) = events app @ es"
  "m_mediator (record_events es app) = m_mediator app"
  "m_mindMapFile (record_events es app) = m_mindMapFile app"
  by (simp_all add: record_events_def)

lemma showMessageBox_simps [simp]:
  "events (showMessageBox msg app) = events app @ [MessageBox msg]"
  "m_mediator (showMessageBox msg app) = m_mediator app"
  by (simp_all add: showMessageBox_def)

lemma saveRecentPath_simps [simp]:
  "events (saveRecentPath f app) = events app @ [SaveRecentPath f]"
  "m_mediator (saveRecentPath f app) = m_mediator app"
  by (simp_all add: saveRecentPath_def)

lemma saveMindMap_events:
  "events (saveMindMap P app) =
     events app @ [LogDebug ''Save..'', MediatorCalled Req_saveMindMap] @
       (if fst (Mediator_saveMindMap P (m_mediator app))
        then [MainWindow_enableSave False, ActionTriggered MindMapSaved]
        else [LogError (tr P ''Failed to save file.''), MessageBox (tr P ''Failed to save file.''),
              ActionTriggered MindMapSaveFailed])"
  by (simp add: saveMindMap_def Let_def split: prod.splits)

lemma saveMindMap_mediator:
  "m_mediator (saveMindMap P app) = snd (Mediator_saveMindMap P (m_mediator app))"
  by (simp add: saveMindMap_def Let_def split: prod.splits)

lemma saveMindMapAs_events:
  "events (saveMindMapAs P A app) =
     events app @ [LogDebug ''Save as..''] @
       (if getSaveFileName A = [] then []
        else MediatorCalled (Req_saveMindMapAs (saveAsName P (getSaveFileName A))) #
          (if fst (Mediator_saveMindMapAs P (saveAsName P (getSaveFileName A)) (m_mediator app))
           then [LogDebug (tr P (''File '' @ [CHR 0x27]) @ saveAsName P (getSaveFileName A) @
                           tr P ([CHR 0x27] @ '' saved.'')),
                 ActionTriggered MindMapSavedAs]
           else [LogError (tr P (''Failed to save file as '' @ [CHR 0x27]) @
                           saveAsName P (getSaveFileName A) @ [CHR 0x27] @ ''.''),
                 MessageBox (tr P (''Failed to save file as '' @ [CHR 0x27]) @
                           saveAsName P (getSaveFileName A) @ [CHR 0x27] @ ''.''),
                 ActionTriggered MindMapSaveAsFailed]))"
  by (simp add: saveMindMapAs_def saveAsName_def Let_def split: prod.splits)

lemma saveMindMapAs_mediator:
  "m_mediator (saveMindMapAs P A app) =
     (if getSaveFileName A = [] then m_mediator app
      else snd (Mediator_saveMindMapAs P (saveAsName P (getSaveFileName A)) (m_mediator app)))"
  by (simp add: saveMindMapAs_def saveAsName_def Let_def split: prod.splits)

lemma doOpenMindMap_events:
  "events (doOpenMindMap P f app) =
     events app @ [LogDebug (''Opening '' @ [CHR 0x27] @ f), MediatorCalled (Req_openMindMap f)] @
       (if fst (Mediator_openMindMap P f (m_mediator app))
        then [MainWindow_disableUndoAndRedo, SaveRecentPath f,
              MainWindow_setSaveActionStatesOnOpenedMindMap, ActionTriggered MindMapOpened]
        else [])"
  by (simp add: doOpenMindMap_def Let_def split: prod.splits)

lemma doOpenMindMap_mediator:
  "m_mediator (doOpenMindMap P f app) = snd (Mediator_openMindMap P f (m_mediator app))"
  by (simp add: doOpenMindMap_def Let_def split: prod.splits)

lemma openMindMap_events:
  "events (openMindMap P A app) =
     events app @ [LogDebug ''Open file''] @
       (if getOpenFileName A = [] then []
        else [LogDebug (''Opening '' @ [CHR 0x27] @ getOpenFileName A),
              MediatorCalled (Req_openMindMap (getOpenFileName A))] @
          (if fst (Mediator_openMindMap P (getOpenFileName A) (m_mediator app))
           then [MainWindow_disableUndoAndRedo, SaveRecentPath (getOpenFileName A),
                 MainWindow_setSaveActionStatesOnOpenedMindMap, ActionTriggered MindMapOpened]
           else []))"
  by (simp add: openMindMap_def Let_def doOpenMindMap_events)

lemma openMindMap_mediator:
  "m_mediator (openMindMap P A app) =
     (if getOpenFileName A = [] then m_mediator app
      else snd (Mediator_openMindMap P (getOpenFileName A) (m_mediator app)))"
  by (simp add: openMindMap_def Let_def doOpenMindMap_mediator)

lemma showBackgroundColorDialog_events:
  "events (showBackgroundColorDialog A app) =
     events app @
       (case getColor A of None \<Rightarrow> [] | Some c \<Rightarrow> [MediatorCalled (Req_setBackgroundColor c)]) @
       [ActionTriggered BackgroundColorChanged]"
  by (simp add: showBackgroundColorDialog_def Let_def split: option.splits)

lemma showBackgroundColorDialog_mediator:
  "m_mediator (showBackgroundColorDialog A app) =
     (case getColor A of None \<Rightarrow> m_mediator app | Some c \<Rightarrow> setBackgroundColor c (m_mediator app))"
  by (simp add: showBackgroundColorDialog_def Let_def split: option.splits)

lemma showExportToPNGDialog_events:
  "events (showExportToPNGDialog A app) =
     events app @ [MediatorCalled Req_zoomForExport, ExportDialog_setImageSize (zoomForExport A)] @
       (case pngExportRequested A of
          None \<Rightarrow> []
        | Some (f, sz, t) \<Rightarrow> [MediatorCalled (Req_exportToPNG f sz t), ExportDialog_finishExport]) @
       [ActionTriggered ExportedToPNG]"
  by (simp add: showExportToPNGDialog_def Let_def split: option.splits prod.splits)

lemma showExportToPNGDialog_mediator:
  "m_mediator (showExportToPNGDialog A app) = m_mediator app"
  by (simp add: showExportToPNGDialog_def Let_def exportToPNG_def split: option.splits prod.splits)

lemma runState_appends: "events (runState P A s app) = events app @ effects P A s app"
  by (cases s)
     (simp_all add: effects_def saveMindMap_events saveMindMapAs_events openMindMap_events
        showBackgroundColorDialog_events showExportToPNGDialog_events showNotSavedDialog_def
        split: StandardButton.splits)

lemma effects_simps:
  "effects P A TryCloseWindow app = [MainWindow_saveWindowSize, MainWindow_close]"
  "effects P A Exit app = [MainWindow_saveWindowSize, QApplication_exit EXIT_SUCCESS]"
  "effects P A Edit app = [MainWindow_setTitle]"
  "effects P A InitializeNewMindMap app = [MediatorCalled Req_initializeNewMindMap]"
  "effects P A SaveMindMap app =
     [LogDebug ''Save..'', MediatorCalled Req_saveMindMap] @
       (if fst (Mediator_saveMindMap P (m_mediator app))
        then [MainWindow_enableSave False, ActionTriggered MindMapSaved]
        else [LogError (tr P ''Failed to save file.''), MessageBox (tr P ''Failed to save file.''),
              ActionTriggered MindMapSaveFailed])"
  "effects P A ShowBackgroundColorDialog app =
     (case getColor A of None \<Rightarrow> [] | Some c \<Rightarrow> [MediatorCalled (Req_setBackgroundColor c)]) @
       [ActionTriggered BackgroundColorChanged]"
  "effects P A ShowExportToPNGDialog app =
     [MediatorCalled Req_zoomForExport, ExportDialog_setImageSize (zoomForExport A)] @
       (case pngExportRequested A of
          None \<Rightarrow> []
        | Some (f, sz, t) \<Rightarrow> [MediatorCalled (Req_exportToPNG f sz t), ExportDialog_finishExport]) @
       [ActionTriggered ExportedToPNG]"
  "effects P A ShowNotSavedDialog app =
     (case notSavedDialogExec A of
        Save \<Rightarrow> [ActionTriggered NotSavedDialogAccepted]
      | Discard \<Rightarrow> [ActionTriggered NotSavedDialogDiscarded]
      | Cancel \<Rightarrow> [ActionTriggered NotSavedDialogCanceled]
      | OtherButton \<Rightarrow> [])"
  "effects P A ShowSaveAsDialog app =
     [LogDebug ''Save as..''] @
       (if getSaveFileName A = [] then []
        else MediatorCalled (Req_saveMindMapAs (saveAsName P (getSaveFileName A))) #
          (if fst (Mediator_saveMindMapAs P (saveAsName P (getSaveFileName A)) (m_mediator app))
           then [LogDebug (tr P (''File '' @ [CHR 0x27]) @ saveAsName P (getSaveFileName A) @
                           tr P ([CHR 0x27] @ '' saved.'')),
                 ActionTriggered MindMapSavedAs]
           else [LogError (tr P (''Failed to save file as '' @ [CHR 0x27]) @
                           saveAsName P (getSaveFileName A) @ [CHR 0x27] @ ''.''),
                 MessageBox (tr P (''Failed to save file as '' @ [CHR 0x27]) @
                           saveAsName P (getSaveFileName A) @ [CHR 0x27] @ ''.''),
                 ActionTriggered MindMapSaveAsFailed]))"
  "effects P A ShowOpenDialog app =
     [LogDebug ''Open file''] @
       (if getOpenFileName A = [] then []
        else [LogDebug (''Opening '' @ [CHR 0x27] @ getOpenFileName A),
              MediatorCalled (Req_openMindMap (getOpenFileName A))] @
          (if fst (Mediator_openMindMap P (getOpenFileName A) (m_mediator app))
           then [MainWindow_disableUndoAndRedo, SaveRecentPath (getOpenFileName A),
                 MainWindow_setSaveActionStatesOnOpenedMindMap, ActionTriggered MindMapOpened]
           else []))"
  by (simp_all add: effects_def saveMindMap_events saveMindMapAs_events openMindMap_events
        showBackgroundColorDialog_events showExportToPNGDialog_events showNotSavedDialog_def
        split: StandardButton.splits)

subsection \<open>Facts shared by the claims about the driver\<close>

text \<open>
  Over a whole run, \<open>QApplication::exit\<close> is called only by a step that runs the state
  \<open>Exit\<close>, and with \<open>EXIT_SUCCESS\<close>.
\<close>

lemma runStates_exit:
  "QApplication_exit c \<in> set (events (runStates P steps app)) \<Longrightarrow>
     QApplication_exit c \<in> set (events app) \<or> (c = EXIT_SUCCESS \<and> Exit \<in> snd ` set steps)"
proof (induction steps arbitrary: app)
  case Nil
  then show ?case by simp
next
  case (Cons step steps)
  obtain A s where step: "step = (A, s)" by (cases step)
  from Cons.prems step
  have "QApplication_exit c \<in> set (events (runStates P steps (runState P A s app)))" by simp
  from Cons.IH[OF this]
  have "QApplication_exit c \<in> set (events (runState P A s app)) \<or>
        (c = EXIT_SUCCESS \<and> Exit \<in> snd ` set steps)" .
  moreover have "QApplication_exit c \<in> set (events (runState P A s app)) \<Longrightarrow>
      QApplication_exit c \<in> set (events app) \<or> (c = EXIT_SUCCESS \<and> s = Exit)"
    unfolding runState_appends
    by (cases s) (auto simp: effects_simps split: if_splits option.splits StandardButton.splits)
  ultimately show ?case using step by auto
qed

text \<open>The table entries for the Actions with which the driver resolves an effect.\<close>

lemma transition_resolved:
  "currentState (transition \<lparr>currentState = ShowNotSavedDialog, pendingOperation = p\<rparr>
      NotSavedDialogCanceled g) = Edit"
  "currentState (transition \<lparr>currentState = ShowBackgroundColorDialog, pendingOperation = p\<rparr>
      BackgroundColorChanged g) = Edit"
  "currentState (transition \<lparr>currentState = ShowExportToPNGDialog, pendingOperation = p\<rparr>
      ExportedToPNG g) = Edit"
  "currentState (transition \<lparr>currentState = SaveMindMap, pendingOperation = p\<rparr>
      MindMapSaveFailed g) = Edit"
  "currentState (transition \<lparr>currentState = ShowSaveAsDialog, pendingOperation = p\<rparr>
      MindMapSaveAsFailed g) = Edit"
  by (simp_all add: transition_def)

text \<open>A save that reports failure has changed nothing in the Mediator.\<close>

lemma Mediator_save_failure_unchanged:
  "\<not> fst (Mediator_saveMindMap P m) \<Longrightarrow> snd (Mediator_saveMindMap P m) = m"
  "\<not> fst (Mediator_saveMindMapAs P name m) \<Longrightarrow> snd (Mediator_saveMindMapAs P name m) = m"
  by (auto simp: Mediator_saveMindMap_def Mediator_saveMindMapAs_def split: option.splits if_splits)

subsection \<open>Claims about the driver\<close>

text \<open>The name handed to \<open>saveMindMapAs\<close> ends with the extension.\<close>

lemma saveAsName_suffix: "suffix (FILE_EXTENSION P) (saveAsName P f)"
  by (simp add: saveAsName_def suffix_def)

text \<open>Names without the extension, for the runs below.\<close>

lemma saveAsName_examples:
  "saveAsName examplePlatform ''mymap'' = ''mymap.alz''"
  "saveAsName examplePlatform ''ok'' = ''ok.alz''"
  "saveAsName examplePlatform ''ok.alz'' = ''ok.alz''"
  by (simp_all add: saveAsName_def examplePlatform_def suffix_to_prefix)

text \<open>
  C3. Whenever the Mediator's \<open>saveMindMap\<close> or \<open>saveMindMapAs\<close> reports failure, the
  driver shows a message box with the failure text and submits exactly
  \<open>MindMapSaveFailed\<close> (for save) or \<open>MindMapSaveAsFailed\<close> (for save-as), which takes
  the workflow to \<open>Edit\<close>; the Document is unchanged and \<open>QApplication::exit\<close> is not
  called. On success it submits exactly \<open>MindMapSaved\<close> or \<open>MindMapSavedAs\<close>. The
  Mediator after the effect is the one its save operation returns: for save-as that is
  \<open>saveMindMapAs\<close> run with the confirmed name, extended where it lacks the extension,
  and it is run whenever the dialog is confirmed.
\<close>

theorem save_failure_is_recovered:
  "(\<not> fst (Mediator_saveMindMap P (m_mediator app)) \<longrightarrow>
      MessageBox (tr P ''Failed to save file.'') \<in> set (effects P A SaveMindMap app) \<and>
      actionsOf (effects P A SaveMindMap app) = [MindMapSaveFailed] \<and>
      currentState (transition \<lparr>currentState = SaveMindMap, pendingOperation = p\<rparr>
                      MindMapSaveFailed g) = Edit \<and>
      document (m_mediator (runState P A SaveMindMap app)) = document (m_mediator app) \<and>
      (\<forall>c. QApplication_exit c \<notin> set (effects P A SaveMindMap app))) \<and>
   (fst (Mediator_saveMindMap P (m_mediator app)) \<longrightarrow>
      actionsOf (effects P A SaveMindMap app) = [MindMapSaved]) \<and>
   m_mediator (runState P A SaveMindMap app) = snd (Mediator_saveMindMap P (m_mediator app)) \<and>
   (getSaveFileName A \<noteq> [] \<longrightarrow>
      m_mediator (runState P A ShowSaveAsDialog app) =
        snd (Mediator_saveMindMapAs P (saveAsName P (getSaveFileName A)) (m_mediator app)) \<and>
      (\<not> fst (Mediator_saveMindMapAs P (saveAsName P (getSaveFileName A)) (m_mediator app)) \<longrightarrow>
         MessageBox (tr P (''Failed to save file as '' @ [CHR 0x27]) @
                       saveAsName P (getSaveFileName A) @ [CHR 0x27] @ ''.'')
           \<in> set (effects P A ShowSaveAsDialog app) \<and>
         actionsOf (effects P A ShowSaveAsDialog app) = [MindMapSaveAsFailed] \<and>
         currentState (transition \<lparr>currentState = ShowSaveAsDialog, pendingOperation = p\<rparr>
                         MindMapSaveAsFailed g) = Edit \<and>
         document (m_mediator (runState P A ShowSaveAsDialog app)) = document (m_mediator app) \<and>
         (\<forall>c. QApplication_exit c \<notin> set (effects P A ShowSaveAsDialog app))) \<and>
      (fst (Mediator_saveMindMapAs P (saveAsName P (getSaveFileName A)) (m_mediator app)) \<longrightarrow>
         actionsOf (effects P A ShowSaveAsDialog app) = [MindMapSavedAs]))"
  by (simp add: effects_simps transition_resolved saveMindMap_mediator saveMindMapAs_mediator
        Mediator_save_failure_unchanged)

text \<open>
  C3 on runs: without a file path the save fails; the platform writes \<open>ok.alz\<close> only,
  so the save as \<open>mymap.alz\<close> fails and the save as \<open>ok.alz\<close> succeeds.
\<close>

theorem save_failure_is_recovered_witness:
  "MessageBox ''Failed to save file.'' \<in>
     set (effects examplePlatform cancelEverything SaveMindMap initialApplication) \<and>
   actionsOf (effects examplePlatform cancelEverything SaveMindMap initialApplication) =
     [MindMapSaveFailed] \<and>
   MessageBox (''Failed to save file as '' @ [CHR 0x27] @ ''mymap.alz'' @ [CHR 0x27] @ ''.'') \<in>
     set (effects examplePlatform (cancelEverything\<lparr>getSaveFileName := ''mymap''\<rparr>)
            ShowSaveAsDialog initialApplication) \<and>
   actionsOf (effects examplePlatform (cancelEverything\<lparr>getSaveFileName := ''mymap''\<rparr>)
      ShowSaveAsDialog initialApplication) = [MindMapSaveAsFailed] \<and>
   document (m_mediator (runState examplePlatform (cancelEverything\<lparr>getSaveFileName := ''mymap''\<rparr>)
      ShowSaveAsDialog initialApplication)) = document (m_mediator initialApplication) \<and>
   actionsOf (effects examplePlatform (cancelEverything\<lparr>getSaveFileName := ''ok''\<rparr>)
      ShowSaveAsDialog initialApplication) = [MindMapSavedAs]"
proof -
  let ?A = "cancelEverything\<lparr>getSaveFileName := ''mymap''\<rparr>"
  let ?B = "cancelEverything\<lparr>getSaveFileName := ''ok''\<rparr>"
  have t: "tr examplePlatform x = x" for x by (simp add: examplePlatform_def)
  have nA: "getSaveFileName ?A \<noteq> []" and nB: "getSaveFileName ?B \<noteq> []" by simp_all
  have sA: "saveAsName examplePlatform (getSaveFileName ?A) = ''mymap.alz''"
    and sB: "saveAsName examplePlatform (getSaveFileName ?B) = ''ok.alz''"
    by (simp_all add: saveAsName_examples)
  have h1: "\<not> fst (Mediator_saveMindMap examplePlatform (m_mediator initialApplication))"
    by (simp add: Mediator_saveMindMap_def initialApplication_def emptyMediator_def)
  have h3: "\<not> fst (Mediator_saveMindMapAs examplePlatform
               (saveAsName examplePlatform (getSaveFileName ?A)) (m_mediator initialApplication))"
    unfolding sA by (simp add: Mediator_saveMindMapAs_def examplePlatform_def)
  have h5: "fst (Mediator_saveMindMapAs examplePlatform
               (saveAsName examplePlatform (getSaveFileName ?B)) (m_mediator initialApplication))"
    unfolding sB by (simp add: Mediator_saveMindMapAs_def examplePlatform_def)
  from save_failure_is_recovered[of examplePlatform initialApplication cancelEverything] h1
  have r1: "MessageBox (tr examplePlatform ''Failed to save file.'') \<in>
       set (effects examplePlatform cancelEverything SaveMindMap initialApplication) \<and>
     actionsOf (effects examplePlatform cancelEverything SaveMindMap initialApplication) =
       [MindMapSaveFailed]"
    by blast
  from save_failure_is_recovered[of examplePlatform initialApplication ?A] nA h3
  have r2: "MessageBox (tr examplePlatform (''Failed to save file as '' @ [CHR 0x27]) @
                saveAsName examplePlatform (getSaveFileName ?A) @ [CHR 0x27] @ ''.'')
         \<in> set (effects examplePlatform ?A ShowSaveAsDialog initialApplication) \<and>
       actionsOf (effects examplePlatform ?A ShowSaveAsDialog initialApplication) =
         [MindMapSaveAsFailed] \<and>
       document (m_mediator (runState examplePlatform ?A ShowSaveAsDialog initialApplication)) =
         document (m_mediator initialApplication)"
    by blast
  from save_failure_is_recovered[of examplePlatform initialApplication ?B] nB h5
  have r3: "actionsOf (effects examplePlatform ?B ShowSaveAsDialog initialApplication) =
         [MindMapSavedAs]"
    by blast
  from r1 r2 r3 show ?thesis unfolding sA t by simp
qed

text \<open>
  C9. When the save-as dialog is confirmed with a file name that does not end with the
  fixed extension, the driver appends the extension before calling \<open>saveMindMapAs\<close>:
  the Mediator after the effect is the one that \<open>saveMindMapAs\<close> returns for the
  extended name, and the one request recorded is for that name. A name that ends with
  the extension is passed on as it is. So whenever the dialog is confirmed, the name the
  Mediator's \<open>saveMindMapAs\<close> is run with ends with the extension, and on success it is
  the Document's file path; when the dialog is canceled the Mediator is not called. In
  no state is a request for a name without the extension recorded.
\<close>

theorem saveAs_name_ends_with_extension:
  "(\<forall>name. Req_saveMindMapAs name \<in> set (requestsOf (effects P A s app)) \<longrightarrow>
       suffix (FILE_EXTENSION P) name) \<and>
   (getSaveFileName A \<noteq> [] \<and> \<not> suffix (FILE_EXTENSION P) (getSaveFileName A) \<longrightarrow>
       requestsOf (effects P A ShowSaveAsDialog app) =
         [Req_saveMindMapAs (getSaveFileName A @ FILE_EXTENSION P)] \<and>
       m_mediator (runState P A ShowSaveAsDialog app) =
         snd (Mediator_saveMindMapAs P (getSaveFileName A @ FILE_EXTENSION P) (m_mediator app))) \<and>
   (getSaveFileName A \<noteq> [] \<and> suffix (FILE_EXTENSION P) (getSaveFileName A) \<longrightarrow>
       requestsOf (effects P A ShowSaveAsDialog app) = [Req_saveMindMapAs (getSaveFileName A)] \<and>
       m_mediator (runState P A ShowSaveAsDialog app) =
         snd (Mediator_saveMindMapAs P (getSaveFileName A) (m_mediator app))) \<and>
   (getSaveFileName A \<noteq> [] \<longrightarrow>
       suffix (FILE_EXTENSION P) (saveAsName P (getSaveFileName A)) \<and>
       requestsOf (effects P A ShowSaveAsDialog app) =
         [Req_saveMindMapAs (saveAsName P (getSaveFileName A))] \<and>
       m_mediator (runState P A ShowSaveAsDialog app) =
         snd (Mediator_saveMindMapAs P (saveAsName P (getSaveFileName A)) (m_mediator app)) \<and>
       (fst (Mediator_saveMindMapAs P (saveAsName P (getSaveFileName A)) (m_mediator app)) \<longrightarrow>
          filePath (document (m_mediator (runState P A ShowSaveAsDialog app))) =
            Some (saveAsName P (getSaveFileName A)))) \<and>
   (getSaveFileName A = [] \<longrightarrow>
       requestsOf (effects P A ShowSaveAsDialog app) = [] \<and>
       m_mediator (runState P A ShowSaveAsDialog app) = m_mediator app)"
proof (intro conjI allI impI)
  fix name
  assume "Req_saveMindMapAs name \<in> set (requestsOf (effects P A s app))"
  then have "name = saveAsName P (getSaveFileName A)"
    by (cases s) (auto simp: effects_simps split: if_splits option.splits StandardButton.splits)
  then show "suffix (FILE_EXTENSION P) name" by (simp add: saveAsName_suffix)
next
  assume a: "getSaveFileName A \<noteq> []"
    and s: "fst (Mediator_saveMindMapAs P (saveAsName P (getSaveFileName A)) (m_mediator app))"
  then show "filePath (document (m_mediator (runState P A ShowSaveAsDialog app))) =
            Some (saveAsName P (getSaveFileName A))"
    by (auto simp: saveMindMapAs_mediator Mediator_saveMindMapAs_def split: if_splits)
qed (simp_all add: effects_simps saveAsName_def saveMindMapAs_mediator saveAsName_suffix[unfolded saveAsName_def])

text \<open>C9 on a run: the answer \<open>ok\<close> is saved as \<open>ok.alz\<close>, which becomes the file path.\<close>

theorem saveAs_name_ends_with_extension_witness:
  "requestsOf (effects examplePlatform (cancelEverything\<lparr>getSaveFileName := ''ok''\<rparr>)
       ShowSaveAsDialog initialApplication) = [Req_saveMindMapAs ''ok.alz''] \<and>
   suffix (FILE_EXTENSION examplePlatform) ''ok.alz'' \<and>
   filePath (document (m_mediator (runState examplePlatform
       (cancelEverything\<lparr>getSaveFileName := ''ok''\<rparr>) ShowSaveAsDialog initialApplication))) =
     Some ''ok.alz''"
proof -
  let ?A = "cancelEverything\<lparr>getSaveFileName := ''ok''\<rparr>"
  have n: "getSaveFileName ?A \<noteq> []" by simp
  have s: "saveAsName examplePlatform (getSaveFileName ?A) = ''ok.alz''"
    by (simp add: saveAsName_examples)
  have h: "fst (Mediator_saveMindMapAs examplePlatform
             (saveAsName examplePlatform (getSaveFileName ?A)) (m_mediator initialApplication))"
    unfolding s by (simp add: Mediator_saveMindMapAs_def examplePlatform_def)
  from saveAs_name_ends_with_extension[of examplePlatform ?A ShowSaveAsDialog initialApplication] n h
  have "suffix (FILE_EXTENSION examplePlatform) (saveAsName examplePlatform (getSaveFileName ?A)) \<and>
       requestsOf (effects examplePlatform ?A ShowSaveAsDialog initialApplication) =
         [Req_saveMindMapAs (saveAsName examplePlatform (getSaveFileName ?A))] \<and>
       filePath (document (m_mediator (runState examplePlatform ?A ShowSaveAsDialog initialApplication))) =
         Some (saveAsName examplePlatform (getSaveFileName ?A))"
    by blast
  then show ?thesis unfolding s by simp
qed

text \<open>
  C5. The export effect signals completion unconditionally: whatever happens in the
  export dialog (a request to export, or none), the driver submits exactly the Action
  \<open>ExportedToPNG\<close>, and neither the Document nor the undo or redo stack changes, be it
  through the effect as a whole or through the Mediator's \<open>exportToPNG\<close> alone.
\<close>

theorem export_always_completes:
  "actionsOf (effects P A ShowExportToPNGDialog app) = [ExportedToPNG] \<and>
   document (m_mediator (runState P A ShowExportToPNGDialog app)) = document (m_mediator app) \<and>
   undoStack (m_mediator (runState P A ShowExportToPNGDialog app)) = undoStack (m_mediator app) \<and>
   redoStack (m_mediator (runState P A ShowExportToPNGDialog app)) = redoStack (m_mediator app) \<and>
   document (exportToPNG fileName imageSize transparent m) = document m \<and>
   undoStack (exportToPNG fileName imageSize transparent m) = undoStack m \<and>
   redoStack (exportToPNG fileName imageSize transparent m) = redoStack m"
  by (simp add: effects_simps showExportToPNGDialog_mediator exportToPNG_def
        split: option.splits prod.splits)

text \<open>
  C4. Over any run of the driver, \<open>QApplication::exit\<close> is called only by a step that
  runs the terminal state \<open>Exit\<close>, and then with the success status \<open>EXIT_SUCCESS = 0\<close>;
  argument parsing fails only with the exception of the help path, and only when a help
  token is among the arguments (in particular a read beyond the arguments never
  happens). No other effect and no failure result of the Mediator ends the process.
\<close>

theorem process_ends_only_at_Exit_or_help:
  "(\<forall>c. QApplication_exit c \<in> set (events (runStates P steps app)) \<longrightarrow>
       QApplication_exit c \<in> set (events app) \<or> (c = EXIT_SUCCESS \<and> Exit \<in> snd ` set steps)) \<and>
   effects P A Exit app = [MainWindow_saveWindowSize, QApplication_exit EXIT_SUCCESS] \<and>
   EXIT_SUCCESS = 0 \<and>
   (\<forall>e app'. parseArgs P argv app = Inl (e, app') \<longrightarrow>
       e = UserException ''Exit due to help.'' \<and>
       (\<exists>j. 1 \<le> j \<and> j < length argv \<and> isHelp (argv ! j)))"
proof (intro conjI allI impI)
  fix c
  assume "QApplication_exit c \<in> set (events (runStates P steps app))"
  then show "QApplication_exit c \<in> set (events app) \<or> (c = EXIT_SUCCESS \<and> Exit \<in> snd ` set steps)"
    by (rule runStates_exit)
next
  fix e app'
  assume "parseArgs P argv app = Inl (e, app')"
  then have l: "parseArgs_loop P argv 1 [] app = Inl (e, app')"
    by (auto simp: parseArgs_def split: sum.splits prod.splits)
  from parseArgs_loop_Inl[OF _ l]
  show "e = UserException ''Exit due to help.''"
    and "\<exists>j. 1 \<le> j \<and> j < length argv \<and> isHelp (argv ! j)"
    by simp_all
qed (simp_all add: effects_simps EXIT_SUCCESS_def)

text \<open>C4 on a run: a canceled open dialog, then \<open>Exit\<close>.\<close>

theorem process_ends_only_at_Exit_or_help_witness:
  "QApplication_exit 0 \<in> set (events (runStates examplePlatform
      [(cancelEverything, ShowOpenDialog), (cancelEverything, Exit)] initialApplication)) \<and>
   QApplication_exit 0 \<notin> set (events initialApplication) \<and>
   Exit \<in> snd ` set [(cancelEverything, ShowOpenDialog), (cancelEverything, Exit)]"
proof -
  let ?steps = "[(cancelEverything, ShowOpenDialog), (cancelEverything, Exit)]"
  have e: "QApplication_exit 0 \<in> set (events (runStates examplePlatform ?steps initialApplication))"
    by (simp add: runState_appends effects_simps EXIT_SUCCESS_def)
  have n: "QApplication_exit 0 \<notin> set (events initialApplication)"
    by (simp add: initialApplication_def)
  from process_ends_only_at_Exit_or_help[of examplePlatform ?steps initialApplication] e n
  have "Exit \<in> snd ` set ?steps" by blast
  with e n show ?thesis by blast
qed

text \<open>
  C1, as stated, fails: when the user cancels the open dialog or the save-as dialog, the
  driver submits no Action at all.
\<close>

theorem cancelled_open_dialog_counterexample:
  "actionsOf (effects examplePlatform cancelEverything ShowOpenDialog initialApplication) = [] \<and>
   actionsOf (effects examplePlatform cancelEverything ShowSaveAsDialog initialApplication) = []"
  by (simp add: effects_simps cancelEverything_def)

text \<open>
  C1, amended. For every workflow State the driver runs the one effect of that State and
  submits at most one Action: exactly one for \<open>SaveMindMap\<close>, \<open>ShowBackgroundColorDialog\<close>
  and \<open>ShowExportToPNGDialog\<close>, for \<open>ShowNotSavedDialog\<close> when the dialog returns Save,
  Discard or Cancel, for \<open>ShowSaveAsDialog\<close> when a file name is confirmed, and for
  \<open>ShowOpenDialog\<close> when a file is chosen and opens; none for \<open>Edit\<close>,
  \<open>InitializeNewMindMap\<close>, \<open>TryCloseWindow\<close> and \<open>Exit\<close>, and none when the chosen file
  does not open. When the user cancels \<open>ShowNotSavedDialog\<close>,
  \<open>ShowBackgroundColorDialog\<close> or \<open>ShowExportToPNGDialog\<close>, an explicit Action
  (\<open>NotSavedDialogCanceled\<close>, \<open>BackgroundColorChanged\<close>, \<open>ExportedToPNG\<close>) is still
  submitted, which returns the machine to \<open>Edit\<close>, and the Mediator's state is
  untouched. When the user cancels \<open>ShowOpenDialog\<close> or \<open>ShowSaveAsDialog\<close>, no Action
  is submitted, the Mediator is not called and its state is untouched.
\<close>

theorem runState_submits_at_most_one_action:
  "length (actionsOf (effects P A s app)) \<le> 1 \<and>
   (s \<in> {SaveMindMap, ShowBackgroundColorDialog, ShowExportToPNGDialog} \<longrightarrow>
      length (actionsOf (effects P A s app)) = 1) \<and>
   (s \<in> {Edit, InitializeNewMindMap, TryCloseWindow, Exit} \<longrightarrow>
      actionsOf (effects P A s app) = []) \<and>
   (notSavedDialogExec A \<noteq> OtherButton \<longrightarrow>
      length (actionsOf (effects P A ShowNotSavedDialog app)) = 1) \<and>
   (getSaveFileName A \<noteq> [] \<longrightarrow>
      length (actionsOf (effects P A ShowSaveAsDialog app)) = 1) \<and>
   (getOpenFileName A \<noteq> [] \<longrightarrow>
      actionsOf (effects P A ShowOpenDialog app) =
        (if fst (Mediator_openMindMap P (getOpenFileName A) (m_mediator app))
         then [MindMapOpened] else [])) \<and>
   (notSavedDialogExec A = Cancel \<longrightarrow>
      actionsOf (effects P A ShowNotSavedDialog app) = [NotSavedDialogCanceled] \<and>
      requestsOf (effects P A ShowNotSavedDialog app) = [] \<and>
      m_mediator (runState P A ShowNotSavedDialog app) = m_mediator app \<and>
      currentState (transition \<lparr>currentState = ShowNotSavedDialog, pendingOperation = p\<rparr>
                      NotSavedDialogCanceled g) = Edit) \<and>
   (getColor A = None \<longrightarrow>
      actionsOf (effects P A ShowBackgroundColorDialog app) = [BackgroundColorChanged] \<and>
      requestsOf (effects P A ShowBackgroundColorDialog app) = [] \<and>
      m_mediator (runState P A ShowBackgroundColorDialog app) = m_mediator app \<and>
      currentState (transition \<lparr>currentState = ShowBackgroundColorDialog, pendingOperation = p\<rparr>
                      BackgroundColorChanged g) = Edit) \<and>
   (pngExportRequested A = None \<longrightarrow>
      actionsOf (effects P A ShowExportToPNGDialog app) = [ExportedToPNG] \<and>
      m_mediator (runState P A ShowExportToPNGDialog app) = m_mediator app \<and>
      currentState (transition \<lparr>currentState = ShowExportToPNGDialog, pendingOperation = p\<rparr>
                      ExportedToPNG g) = Edit) \<and>
   (getOpenFileName A = [] \<longrightarrow>
      actionsOf (effects P A ShowOpenDialog app) = [] \<and>
      requestsOf (effects P A ShowOpenDialog app) = [] \<and>
      m_mediator (runState P A ShowOpenDialog app) = m_mediator app) \<and>
   (getSaveFileName A = [] \<longrightarrow>
      actionsOf (effects P A ShowSaveAsDialog app) = [] \<and>
      requestsOf (effects P A ShowSaveAsDialog app) = [] \<and>
      m_mediator (runState P A ShowSaveAsDialog app) = m_mediator app)"
proof (intro conjI impI)
  show "length (actionsOf (effects P A s app)) \<le> 1"
    by (cases s) (simp_all add: effects_simps split: option.splits prod.splits StandardButton.splits)
next
  assume "s \<in> {SaveMindMap, ShowBackgroundColorDialog, ShowExportToPNGDialog}"
  then show "length (actionsOf (effects P A s app)) = 1"
    by (auto simp: effects_simps split: option.splits prod.splits)
next
  assume "s \<in> {Edit, InitializeNewMindMap, TryCloseWindow, Exit}"
  then show "actionsOf (effects P A s app) = []"
    by (auto simp: effects_simps)
next
  assume "notSavedDialogExec A \<noteq> OtherButton"
  then show "length (actionsOf (effects P A ShowNotSavedDialog app)) = 1"
    by (cases "notSavedDialogExec A") (simp_all add: effects_simps)
qed (simp_all add: effects_simps transition_resolved showNotSavedDialog_def
       showBackgroundColorDialog_mediator showExportToPNGDialog_mediator
       openMindMap_mediator saveMindMapAs_mediator)

text \<open>C1 on runs in which every dialog is canceled, and one in which a file opens.\<close>

theorem runState_submits_at_most_one_action_witness:
  "actionsOf (effects examplePlatform cancelEverything ShowNotSavedDialog initialApplication) =
     [NotSavedDialogCanceled] \<and>
   actionsOf (effects examplePlatform cancelEverything ShowBackgroundColorDialog initialApplication) =
     [BackgroundColorChanged] \<and>
   actionsOf (effects examplePlatform cancelEverything ShowExportToPNGDialog initialApplication) =
     [ExportedToPNG] \<and>
   actionsOf (effects examplePlatform cancelEverything ShowOpenDialog initialApplication) = [] \<and>
   m_mediator (runState examplePlatform cancelEverything ShowSaveAsDialog initialApplication) =
     m_mediator initialApplication \<and>
   actionsOf (effects examplePlatform (cancelEverything\<lparr>getOpenFileName := ''map.alz''\<rparr>)
     ShowOpenDialog initialApplication) = [MindMapOpened] \<and>
   actionsOf (effects examplePlatform cancelEverything Edit initialApplication) = []"
proof -
  let ?B = "cancelEverything\<lparr>getOpenFileName := ''map.alz''\<rparr>"
  have c: "notSavedDialogExec cancelEverything = Cancel" "getColor cancelEverything = None"
    "pngExportRequested cancelEverything = None" "getOpenFileName cancelEverything = []"
    "getSaveFileName cancelEverything = []"
    by (simp_all add: cancelEverything_def)
  have o: "getOpenFileName ?B \<noteq> []" by simp
  have f: "fst (Mediator_openMindMap examplePlatform (getOpenFileName ?B) (m_mediator initialApplication))"
    by (simp add: Mediator_openMindMap_def examplePlatform_def)
  have e: "Edit \<in> {Edit, InitializeNewMindMap, TryCloseWindow, Exit}" by simp
  from runState_submits_at_most_one_action[of examplePlatform cancelEverything Edit initialApplication]
       runState_submits_at_most_one_action[of examplePlatform ?B Edit initialApplication]
       c o f e
  show ?thesis by simp
qed

subsection \<open>The edit history\<close>

text \<open>
  Facts about the commands and the two stacks. The selection does not bear on the
  Document or the stacks.
\<close>

lemma dropDanglingSelection_simps [simp]:
  "document (dropDanglingSelection m) = document m"
  "undoStack (dropDanglingSelection m) = undoStack m"
  "redoStack (dropDanglingSelection m) = redoStack m"
  by (simp_all add: dropDanglingSelection_def split: option.splits)











lemma justApplied_flag [simp]: "justApplied c (d\<lparr>isModified := b\<rparr>) = justApplied c d"
  by (cases c) (simp_all split: option.splits)

lemma justApplied_path [simp]: "justApplied c (d\<lparr>filePath := p\<rparr>) = justApplied c d"
  by (cases c) (simp_all split: option.splits)

lemma justApplied_AddNode: "justApplied (AddNode n src) (applyForward (AddNode n src) d)"
  by (cases src) simp_all






subsection \<open>Claims about the Mediator\<close>










end
